theory Spec2Isabelle
  imports Complex_Main
begin

section \<open>JavaScript numbers\<close>

text \<open>
  A JavaScript number is an IEEE double. The model keeps the four kinds of value the
  program can tell apart: a finite number, the two infinities and \<open>NaN\<close>. Finite
  doubles are idealised as reals: no rounding and no overflow. There is no signed
  zero: a zero divisor is read as \<open>+0\<close>, which is what \<open>Math.hypot\<close>, the only source
  of divisors in this program, returns.
\<close>

datatype jsnum = Fin real | PosInf | NegInf | NaN

fun js_neg :: "jsnum \<Rightarrow> jsnum" where
  "js_neg (Fin a) = Fin (- a)"
| "js_neg PosInf = NegInf"
| "js_neg NegInf = PosInf"
| "js_neg NaN = NaN"

fun js_add :: "jsnum \<Rightarrow> jsnum \<Rightarrow> jsnum" where
  "js_add NaN _ = NaN"
| "js_add _ NaN = NaN"
| "js_add (Fin a) (Fin b) = Fin (a + b)"
| "js_add PosInf NegInf = NaN"
| "js_add NegInf PosInf = NaN"
| "js_add PosInf _ = PosInf"
| "js_add _ PosInf = PosInf"
| "js_add NegInf _ = NegInf"
| "js_add _ NegInf = NegInf"

definition js_sub :: "jsnum \<Rightarrow> jsnum \<Rightarrow> jsnum" where
  "js_sub a b = js_add a (js_neg b)"

fun js_mul :: "jsnum \<Rightarrow> jsnum \<Rightarrow> jsnum" where
  "js_mul NaN _ = NaN"
| "js_mul _ NaN = NaN"
| "js_mul (Fin a) (Fin b) = Fin (a * b)"
| "js_mul PosInf (Fin b) = (if b = 0 then NaN else if 0 < b then PosInf else NegInf)"
| "js_mul NegInf (Fin b) = (if b = 0 then NaN else if 0 < b then NegInf else PosInf)"
| "js_mul (Fin a) PosInf = (if a = 0 then NaN else if 0 < a then PosInf else NegInf)"
| "js_mul (Fin a) NegInf = (if a = 0 then NaN else if 0 < a then NegInf else PosInf)"
| "js_mul PosInf PosInf = PosInf"
| "js_mul NegInf NegInf = PosInf"
| "js_mul PosInf NegInf = NegInf"
| "js_mul NegInf PosInf = NegInf"

text \<open>Division: \<open>0 / 0\<close> and \<open>\<infinity> / \<infinity>\<close> are \<open>NaN\<close>; a nonzero number over zero is an infinity.\<close>

fun js_div :: "jsnum \<Rightarrow> jsnum \<Rightarrow> jsnum" where
  "js_div NaN _ = NaN"
| "js_div _ NaN = NaN"
| "js_div (Fin a) (Fin b) =
     (if b \<noteq> 0 then Fin (a / b)
      else if a = 0 then NaN
      else if 0 < a then PosInf else NegInf)"
| "js_div (Fin a) PosInf = Fin 0"
| "js_div (Fin a) NegInf = Fin 0"
| "js_div PosInf (Fin b) = (if 0 \<le> b then PosInf else NegInf)"
| "js_div NegInf (Fin b) = (if 0 \<le> b then NegInf else PosInf)"
| "js_div _ _ = NaN"

text \<open>\<open>Math.hypot\<close>: an infinite argument wins over \<open>NaN\<close>.\<close>

fun Math_hypot :: "jsnum \<Rightarrow> jsnum \<Rightarrow> jsnum" where
  "Math_hypot (Fin a) (Fin b) = Fin (sqrt (a * a + b * b))"
| "Math_hypot PosInf _ = PosInf"
| "Math_hypot NegInf _ = PosInf"
| "Math_hypot _ PosInf = PosInf"
| "Math_hypot _ NegInf = PosInf"
| "Math_hypot _ _ = NaN"

text \<open>The comparison \<open>a < b\<close>: false as soon as one side is \<open>NaN\<close>.\<close>

fun js_lt :: "jsnum \<Rightarrow> jsnum \<Rightarrow> bool" where
  "js_lt NaN _ = False"
| "js_lt _ NaN = False"
| "js_lt (Fin a) (Fin b) = (a < b)"
| "js_lt _ NegInf = False"
| "js_lt PosInf _ = False"
| "js_lt NegInf _ = True"
| "js_lt _ PosInf = True"

definition js_gt :: "jsnum \<Rightarrow> jsnum \<Rightarrow> bool" where
  "js_gt a b = js_lt b a"

text \<open>\<open>Math.round\<close> rounds half up: \<open>floor (x + 1/2)\<close>.\<close>

fun Math_round :: "jsnum \<Rightarrow> jsnum" where
  "Math_round (Fin a) = Fin (of_int \<lfloor>a + 1 / 2\<rfloor>)"
| "Math_round v = v"

text \<open>
  \<open>ToNumber\<close> of what an array read gives: an element, or \<open>undefined\<close> (here \<open>None\<close>)
  past the end, which is \<open>NaN\<close> in arithmetic.
\<close>

definition array_get :: "'a list \<Rightarrow> nat \<Rightarrow> 'a option" where
  "array_get xs i = (if i < length xs then Some (xs ! i) else None)"

fun to_number :: "int option \<Rightarrow> jsnum" where
  "to_number None = NaN"
| "to_number (Some k) = Fin (of_int k)"

section \<open>Points and the elevation projector\<close>

datatype point = Point (pt_x: jsnum) (pt_y: jsnum)

text \<open>
  \<open>ProjectElevatedPoint(A, B, height)\<close>, line by line. The division is not guarded:
  for coincident points \<open>distance\<close> is \<open>0\<close>.
\<close>

definition ProjectElevatedPoint :: "point \<Rightarrow> point \<Rightarrow> jsnum \<Rightarrow> point" where
  "ProjectElevatedPoint A B height =
     (let dx = js_sub (pt_x B) (pt_x A);
          dy = js_sub (pt_y B) (pt_y A);
          distance = Math_hypot dy dx;
          projected_x =
            js_add (js_div (js_mul height (js_sub (pt_y B) (pt_y A))) distance) (pt_x B);
          projected_y =
            js_add (js_div (js_mul height (js_sub (pt_x B) (pt_x A))) distance) (pt_y B)
      in Point projected_x projected_y)"

text \<open>
  The host's \<open>Ray\<close> class (not part of this repository): a segment from \<open>A\<close> to \<open>B\<close>
  whose \<open>distance\<close> field is its Euclidean length, and whose \<open>project(t)\<close> is the point
  \<open>A + t (B - A)\<close>.
\<close>

datatype ray = Ray (ray_A: point) (ray_B: point)

definition ray_distance :: "ray \<Rightarrow> jsnum" where
  "ray_distance r =
     Math_hypot (js_sub (pt_x (ray_B r)) (pt_x (ray_A r)))
                (js_sub (pt_y (ray_B r)) (pt_y (ray_A r)))"

definition ray_project :: "ray \<Rightarrow> jsnum \<Rightarrow> point" where
  "ray_project r t =
     Point (js_add (pt_x (ray_A r)) (js_mul t (js_sub (pt_x (ray_B r)) (pt_x (ray_A r)))))
           (js_add (pt_y (ray_A r)) (js_mul t (js_sub (pt_y (ray_B r)) (pt_y (ray_A r)))))"

section \<open>The ruler's session state\<close>

datatype js_error = ReferenceError string | TypeError string

text \<open>A text label of the host (\<open>this.labels.children[i]\<close>); an unset text is \<open>None\<close>.\<close>

record label =
  lbl_text :: "string option"
  lbl_alpha :: real
  lbl_visible :: bool
  lbl_position :: point

text \<open>Drawing commands sent to the host's graphics object \<open>this.ruler\<close>.\<close>

datatype gfx =
    LineStyle nat nat real
  | MoveTo jsnum jsnum
  | LineTo jsnum jsnum
  | BeginFill nat real
  | DrawCircle jsnum jsnum nat

text \<open>
  The \<open>Ruler\<close> object. \<open>elevation_increments\<close> and \<open>destination_elevation_increment\<close>
  are the two properties this module adds; the others are the host's. The increments
  are integers: they start at \<open>0\<close> and change by \<open>1\<close>.
\<close>

record ruler =
  waypoints :: "point list"
  destination :: "point option"
  labels :: "label list"
  active :: bool
  color :: nat
  graphics :: "gfx list"
  highlighted :: "ray list"
  elevation_increments :: "int list"
  destination_elevation_increment :: int

text \<open>\<open>changeElevation(elevation_increment)\<close>: \<open>this.destination_elevation_increment += elevation_increment\<close>.\<close>

definition changeElevation :: "int \<Rightarrow> ruler \<Rightarrow> ruler" where
  "changeElevation elevation_increment this =
     this\<lparr>destination_elevation_increment :=
            destination_elevation_increment this + elevation_increment\<rparr>"

text \<open>
  \<open>incrementElevation\<close> and \<open>decrementElevation\<close> act on \<open>canvas.controls.ruler\<close>, which
  may be missing (\<open>None\<close>): \<open>if(!ruler || !ruler.active) return\<close>.
\<close>

definition incrementElevation :: "ruler option \<Rightarrow> ruler option" where
  "incrementElevation canvas_controls_ruler =
     (case canvas_controls_ruler of
        None \<Rightarrow> canvas_controls_ruler
      | Some ruler \<Rightarrow>
          if \<not> active ruler then canvas_controls_ruler
          else Some (changeElevation 1 ruler))"

definition decrementElevation :: "ruler option \<Rightarrow> ruler option" where
  "decrementElevation canvas_controls_ruler =
     (case canvas_controls_ruler of
        None \<Rightarrow> canvas_controls_ruler
      | Some ruler \<Rightarrow>
          if \<not> active ruler then canvas_controls_ruler
          else Some (changeElevation (- 1) ruler))"

subsection \<open>The wrappers of clear, add waypoint and remove waypoint\<close>

text \<open>
  Each wrapper updates the two elevation properties and then returns what the host's
  wrapped method returns on the updated ruler.
\<close>

definition elevationRulerClear :: "(ruler \<Rightarrow> 'a) \<Rightarrow> ruler \<Rightarrow> 'a" where
  "elevationRulerClear wrapped this =
     wrapped (this\<lparr>elevation_increments := [], destination_elevation_increment := 0\<rparr>)"

text \<open>\<open>Array.prototype.push\<close> appends at the end.\<close>

definition elevationRulerAddWaypoint :: "(ruler \<Rightarrow> 'a) \<Rightarrow> ruler \<Rightarrow> 'a" where
  "elevationRulerAddWaypoint wrapped this =
     wrapped (this\<lparr>elevation_increments :=
                     elevation_increments this @ [destination_elevation_increment this],
                   destination_elevation_increment := 0\<rparr>)"

text \<open>
  \<open>Array.prototype.pop\<close>: the removed last element and the shorter array; on an empty
  array it returns \<open>undefined\<close> (\<open>None\<close>) and leaves the array empty.
\<close>

definition array_pop :: "'a list \<Rightarrow> 'a option \<times> 'a list" where
  "array_pop xs = (if xs = [] then (None, []) else (Some (last xs), butlast xs))"

definition elevationRulerRemoveWaypoint :: "(ruler \<Rightarrow> 'a) \<Rightarrow> ruler \<Rightarrow> 'a" where
  "elevationRulerRemoveWaypoint wrapped this =
     (let (popped, rest) = array_pop (elevation_increments this)
      in wrapped (this\<lparr>elevation_increments := rest, destination_elevation_increment := 0\<rparr>))"

text \<open>
  The host's own methods, which the wrappers call as \<open>wrapped\<close>, are not in this
  repository. What they do to the list of committed waypoints: \<open>clear\<close> empties it,
  \<open>_addWaypoint\<close> pushes a point, \<open>_removeWaypoint\<close> pops one.
\<close>

definition host_clear :: "ruler \<Rightarrow> ruler" where
  "host_clear this = this\<lparr>waypoints := []\<rparr>"

definition host_addWaypoint :: "point \<Rightarrow> ruler \<Rightarrow> ruler" where
  "host_addWaypoint p this = this\<lparr>waypoints := waypoints this @ [p]\<rparr>"

definition host_removeWaypoint :: "ruler \<Rightarrow> ruler" where
  "host_removeWaypoint this = this\<lparr>waypoints := snd (array_pop (waypoints this))\<rparr>"

datatype transition = AddWaypoint point | RemoveWaypoint

fun transition_step :: "ruler \<Rightarrow> transition \<Rightarrow> ruler" where
  "transition_step this (AddWaypoint p) = elevationRulerAddWaypoint (host_addWaypoint p) this"
| "transition_step this RemoveWaypoint = elevationRulerRemoveWaypoint host_removeWaypoint this"

definition run_transitions :: "ruler \<Rightarrow> transition list \<Rightarrow> ruler" where
  "run_transitions this ts = foldl transition_step this ts"

section \<open>Free identifiers, the scene and the host\<close>

text \<open>
  The module reads five identifiers that it neither declares nor imports nor receives
  as parameters. A read of such an identifier looks it up in the global scope and
  throws a \<open>ReferenceError\<close> when nothing is bound (\<open>None\<close>). In \<open>module_scope\<close>,
  the scope the source files give, none of them is bound.
\<close>

record scope =
  sc_destination :: "point option"
  sc_gridSpaces :: "bool option"
  sc_elevation_increments :: "int list option"
  sc_segmentDistance :: "jsnum option"
  sc_totalDistance :: "jsnum option"

definition module_scope :: scope where
  "module_scope =
     \<lparr>sc_destination = None, sc_gridSpaces = None, sc_elevation_increments = None,
      sc_segmentDistance = None, sc_totalDistance = None\<rparr>"

text \<open>\<open>canvas.scene.data\<close>: the unit's name, the distance of one grid cell, the cell's size in pixels.\<close>

record scene =
  gridUnits :: string
  gridDistance :: jsnum
  grid :: jsnum

text \<open>A measured segment \<open>{ray, label}\<close>, to which the second loop adds \<open>last\<close>, \<open>distance\<close>
  and \<open>text\<close>; the label is the index of a child of \<open>this.labels\<close>, or \<open>None\<close> for
  \<open>undefined\<close>. An elevation segment is \<open>{ray_elevated, label}\<close>.\<close>

record segment =
  seg_ray :: ray
  seg_label :: "nat option"
  seg_last :: "bool option"
  seg_distance :: "jsnum option"
  seg_text :: "string option"

record elevation_segment =
  ray_elevated :: ray
  es_label :: "nat option"

text \<open>
  What the host supplies: \<open>canvas.grid.getCenter\<close>, \<open>canvas.grid.measureDistances\<close>
  (which may throw), \<open>Ruler._getSegmentLabel\<close> and the conversion of a number to a
  string that a template literal applies.
\<close>

record host =
  getCenter :: "jsnum \<Rightarrow> jsnum \<Rightarrow> point"
  measureDistances :: "elevation_segment list \<Rightarrow> bool \<Rightarrow> js_error + jsnum list"
  getSegmentLabel :: "jsnum \<Rightarrow> jsnum \<Rightarrow> bool \<Rightarrow> string"
  number_to_string :: "jsnum \<Rightarrow> string"

section \<open>The elevation label\<close>

text \<open>The arrows U+2191 and U+2193, as their UTF-8 bytes.\<close>

definition up_arrow :: string where
  "up_arrow = [CHR 0xE2, CHR 0x86, CHR 0x91]"

definition down_arrow :: string where
  "down_arrow = [CHR 0xE2, CHR 0x86, CHR 0x93]"

text \<open>
  \<open>_getSegmentElevationLabel(segmentElevationIncrement, totalElevationIncrement, isTotal)\<close>.
  The template literals read \<open>segmentDistance\<close> and \<open>totalDistance\<close>, which are not
  parameters of the function.
\<close>

definition getSegmentElevationLabel ::
  "scope \<Rightarrow> host \<Rightarrow> scene \<Rightarrow> jsnum \<Rightarrow> jsnum \<Rightarrow> bool \<Rightarrow> js_error + string" where
  "getSegmentElevationLabel sc h scn segmentElevationIncrement totalElevationIncrement isTotal =
     (let units = gridUnits scn;
          segmentArrow =
            (if js_gt segmentElevationIncrement (Fin 0) then up_arrow
             else if js_lt segmentElevationIncrement (Fin 0) then down_arrow
             else [])
      in case sc_segmentDistance sc of
           None \<Rightarrow> Inl (ReferenceError ''segmentDistance'')
         | Some segmentDistance \<Rightarrow>
             (let label =
                    segmentArrow
                    @ number_to_string h
                        (js_div (Math_round (js_mul segmentDistance (Fin 100))) (Fin 100))
                    @ '' '' @ units
              in if isTotal then
                   (let totalArrow =
                          (if js_gt totalElevationIncrement (Fin 0) then up_arrow
                           else if js_lt totalElevationIncrement (Fin 0) then down_arrow
                           else [])
                    in case sc_totalDistance sc of
                         None \<Rightarrow> Inl (ReferenceError ''totalDistance'')
                       | Some totalDistance \<Rightarrow>
                           Inr (label @ '' ['' @ totalArrow
                                @ number_to_string h
                                    (js_div (Math_round (js_mul totalDistance (Fin 100))) (Fin 100))
                                @ '' '' @ units @ '']''))
                 else Inr label))"

section \<open>Measuring\<close>

text \<open>
  The test that selects the original measure function:
  \<open>!this.destination_elevation_increment &&
    (!this.elevation_increments || this.elevation_increments.reduce((a, b) => a == 0 && b == 0, true))\<close>.
  The accumulator \<open>a\<close> is a boolean, and \<open>a == 0\<close> compares its number (\<open>true\<close> is \<open>1\<close>,
  \<open>false\<close> is \<open>0\<close>) with \<open>0\<close>. An array, also the empty one, is truthy.
  The calls of \<open>log\<close>, here and in the other functions, only write to the console
  and are left out.
\<close>

definition boolean_to_number :: "bool \<Rightarrow> int" where
  "boolean_to_number a = (if a then 1 else 0)"

definition array_truthy :: "'a list \<Rightarrow> bool" where
  "array_truthy xs = True"

definition no_elevation_reduce :: "int list \<Rightarrow> bool" where
  "no_elevation_reduce incs = foldl (\<lambda>a b. boolean_to_number a = 0 \<and> b = 0) True incs"

definition use_original_measure :: "ruler \<Rightarrow> bool" where
  "use_original_measure this =
     (destination_elevation_increment this = 0 \<and>
      (\<not> array_truthy (elevation_increments this)
       \<or> no_elevation_reduce (elevation_increments this)))"

text \<open>
  The first loop, over \<open>waypoints.slice(1).entries()\<close>: \<open>i\<close> is the index of the
  segment, \<open>origin\<close> is \<open>waypoints[i]\<close> and \<open>dest\<close> is \<open>waypoints[i + 1]\<close>. It collects
  \<open>segments\<close> and \<open>elevation_segments\<close> and hides labels in \<open>this.labels.children\<close>.
\<close>

definition hide_label :: "nat option \<Rightarrow> label list \<Rightarrow> label list" where
  "hide_label label lbls =
     (case label of None \<Rightarrow> lbls | Some j \<Rightarrow> lbls[j := (lbls ! j)\<lparr>lbl_visible := False\<rparr>])"

definition segment_elevation :: "scene \<Rightarrow> int list \<Rightarrow> nat \<Rightarrow> jsnum" where
  "segment_elevation scn incs i =
     js_mul (js_mul (to_number (array_get incs (i + 1))) (gridDistance scn)) (grid scn)"

fun segments_loop ::
  "scene \<Rightarrow> int list \<Rightarrow> nat \<Rightarrow> point list \<Rightarrow>
   segment list \<times> elevation_segment list \<times> label list \<Rightarrow>
   segment list \<times> elevation_segment list \<times> label list" where
  "segments_loop scn incs i (origin # dest # rest) (segments, elevation_segments, lbls) =
     (let label = (if i < length lbls then Some i else None);
          ray = Ray origin dest;
          elevation = segment_elevation scn incs i;
          elevated_dest = ProjectElevatedPoint origin dest elevation;
          ray_elev = Ray origin elevated_dest
      in if js_lt (ray_distance ray_elev) (Fin 10)
         then segments_loop scn incs (i + 1) (dest # rest)
                (segments, elevation_segments, hide_label label lbls)
         else segments_loop scn incs (i + 1) (dest # rest)
                (segments @ [\<lparr>seg_ray = ray, seg_label = label, seg_last = None,
                               seg_distance = None, seg_text = None\<rparr>],
                 elevation_segments @ [\<lparr>ray_elevated = ray_elev, es_label = label\<rparr>],
                 lbls))"
| "segments_loop scn incs i _ st = st"

text \<open>
  The second loop, over \<open>distances.entries()\<close>. \<open>segments[i]\<close> past the end is
  \<open>undefined\<close>, and setting a property of it throws a \<open>TypeError\<close>. The test
  \<open>elevation_increments[i + 1] != 0\<close> reads the free identifier \<open>elevation_increments\<close>,
  not the property of \<open>this\<close>; \<open>undefined != 0\<close> is true.
\<close>

fun distances_loop ::
  "scope \<Rightarrow> host \<Rightarrow> scene \<Rightarrow> int list \<Rightarrow> nat \<Rightarrow> jsnum list \<Rightarrow> jsnum \<Rightarrow> jsnum \<Rightarrow>
   segment list \<Rightarrow> js_error + segment list" where
  "distances_loop sc h scn incs i [] totalDistance totalElevation segments = Inr segments"
| "distances_loop sc h scn incs i (d # ds) totalDistance totalElevation segments =
     (let totalDistance' = js_add totalDistance d
      in if length segments \<le> i then Inl (TypeError ''s is undefined'')
         else
           (let s = segments ! i;
                is_last = (int i = int (length segments) - 1);
                s1 = s\<lparr>seg_last := Some is_last, seg_distance := Some d,
                       seg_text := Some (getSegmentLabel h d totalDistance' is_last)\<rparr>
            in case sc_elevation_increments sc of
                 None \<Rightarrow> Inl (ReferenceError ''elevation_increments'')
               | Some free_increments \<Rightarrow>
                   if array_get free_increments (i + 1) \<noteq> Some 0 then
                     (let elevation = segment_elevation scn incs i;
                          totalElevation' = js_add totalElevation elevation
                      in case getSegmentElevationLabel sc h scn elevation totalElevation' is_last of
                           Inl e \<Rightarrow> Inl e
                         | Inr elevation_text \<Rightarrow>
                             distances_loop sc h scn incs (i + 1) ds totalDistance' totalElevation'
                               (segments[i := s1\<lparr>seg_text :=
                                   Some (getSegmentLabel h d totalDistance' is_last
                                         @ elevation_text)\<rparr>]))
                   else
                     distances_loop sc h scn incs (i + 1) ds totalDistance' totalElevation
                       (segments[i := s1])))"

text \<open>
  The drawing loop over \<open>segments\<close>: the line of the segment, drawn twice, its label
  (text, alpha, made visible, moved just after the end point) and the grid highlight.
\<close>

fun draw_segments :: "segment list \<Rightarrow> ruler \<Rightarrow> ruler" where
  "draw_segments [] this = this"
| "draw_segments (s # ss) this =
     (let ray = seg_ray s;
          this1 = this\<lparr>graphics := graphics this @
                    [LineStyle 6 0 (1 / 2),
                     MoveTo (pt_x (ray_A ray)) (pt_y (ray_A ray)),
                     LineTo (pt_x (ray_B ray)) (pt_y (ray_B ray)),
                     LineStyle 4 (color this) (1 / 4),
                     MoveTo (pt_x (ray_A ray)) (pt_y (ray_A ray)),
                     LineTo (pt_x (ray_B ray)) (pt_y (ray_B ray))]\<rparr>;
          this2 =
            (case seg_label s of
               None \<Rightarrow> this1
             | Some j \<Rightarrow>
                 (let labelPosition =
                        ray_project ray
                          (js_div (js_add (ray_distance ray) (Fin 50)) (ray_distance ray))
                  in this1\<lparr>labels := (labels this1)
                       [j := (labels this1 ! j)
                          \<lparr>lbl_text := seg_text s,
                           lbl_alpha := (if seg_last s = Some True then 1 else 1 / 2),
                           lbl_visible := True,
                           lbl_position := labelPosition\<rparr>]\<rparr>));
          this3 = this2\<lparr>highlighted := highlighted this2 @ [ray]\<rparr>
      in draw_segments ss this3)"

text \<open>The end points: a circle at every waypoint.\<close>

fun draw_endpoints :: "point list \<Rightarrow> ruler \<Rightarrow> ruler" where
  "draw_endpoints [] this = this"
| "draw_endpoints (p # ps) this =
     draw_endpoints ps
       (this\<lparr>graphics := graphics this @
          [LineStyle 2 0 (1 / 2), BeginFill (color this) (1 / 4),
           DrawCircle (pt_x p) (pt_y p) 8]\<rparr>)"

text \<open>
  \<open>elevationRulerMeasure(wrapped, ...args)\<close>. \<open>wrapped\<close> stands for the host's measure
  function applied to \<open>args\<close>; a call returns its value or the error thrown, and the
  ruler as the call left it. The function never takes \<open>destination\<close> and \<open>gridSpaces\<close>
  out of \<open>args\<close>: both are free identifiers.
\<close>

definition elevationRulerMeasure ::
  "scope \<Rightarrow> host \<Rightarrow> scene \<Rightarrow> (ruler \<Rightarrow> (js_error + segment list) \<times> ruler) \<Rightarrow> ruler \<Rightarrow>
   (js_error + segment list) \<times> ruler" where
  "elevationRulerMeasure sc h scn wrapped this =
     (if use_original_measure this then wrapped this
      else
        case sc_destination sc of
          None \<Rightarrow> (Inl (ReferenceError ''destination''), this)
        | Some destination0 \<Rightarrow>
            (let dest = getCenter h (pt_x destination0) (pt_y destination0);
                 wps = waypoints this @ [dest];
                 this1 = this\<lparr>destination := Some dest\<rparr>;
                 (segments, elevation_segments, lbls) =
                   segments_loop scn (elevation_increments this1) 0 wps ([], [], labels this1);
                 this2 = this1\<lparr>labels := lbls\<rparr>
             in case sc_gridSpaces sc of
                  None \<Rightarrow> (Inl (ReferenceError ''gridSpaces''), this2)
                | Some gridSpaces \<Rightarrow>
                    (case measureDistances h elevation_segments gridSpaces of
                       Inl e \<Rightarrow> (Inl e, this2)
                     | Inr distances \<Rightarrow>
                         (case distances_loop sc h scn (elevation_increments this2) 0 distances
                                 (Fin 0) (Fin 0) segments of
                            Inl e \<Rightarrow> (Inl e, this2)
                          | Inr segments' \<Rightarrow>
                              (let this3 = this2\<lparr>highlighted := [], graphics := []\<rparr>;
                                   this4 = draw_segments segments' this3;
                                   this5 = draw_endpoints wps this4
                               in (Inr segments', this5))))))"

section \<open>Vocabulary of the statements\<close>

text \<open>
  Plane geometry on points: the cross product of \<open>A\<rightarrow>B\<close> and \<open>A\<rightarrow>C\<close>, which is \<open>0\<close> exactly
  when the three points are collinear, and the mirror image of \<open>P\<close> across the line
  through \<open>A\<close> and \<open>B\<close>.
\<close>

definition cross_product :: "point \<Rightarrow> point \<Rightarrow> point \<Rightarrow> jsnum" where
  "cross_product A B C =
     js_sub (js_mul (js_sub (pt_x B) (pt_x A)) (js_sub (pt_y C) (pt_y A)))
            (js_mul (js_sub (pt_y B) (pt_y A)) (js_sub (pt_x C) (pt_x A)))"

definition mirror_image :: "point \<Rightarrow> point \<Rightarrow> point \<Rightarrow> point" where
  "mirror_image A B P =
     (let ux = js_sub (pt_x B) (pt_x A);
          uy = js_sub (pt_y B) (pt_y A);
          vx = js_sub (pt_x P) (pt_x A);
          vy = js_sub (pt_y P) (pt_y A);
          t = js_div (js_add (js_mul vx ux) (js_mul vy uy))
                     (js_add (js_mul ux ux) (js_mul uy uy))
      in Point (js_sub (js_add (pt_x A) (js_mul (Fin 2) (js_mul t ux))) vx)
               (js_sub (js_add (pt_y A) (js_mul (Fin 2) (js_mul t uy))) vy))"

subsection \<open>Concrete inputs\<close>

definition origin_point :: point where
  "origin_point = Point (Fin 0) (Fin 0)"

definition plain_label :: label where
  "plain_label = \<lparr>lbl_text = None, lbl_alpha = 1, lbl_visible = True, lbl_position = origin_point\<rparr>"

definition fresh_ruler :: ruler where
  "fresh_ruler =
     \<lparr>waypoints = [], destination = None, labels = [], active = False, color = 0,
      graphics = [], highlighted = [], elevation_increments = [],
      destination_elevation_increment = 0\<rparr>"

text \<open>The ruler after \<open>clear\<close> and one \<open>_addWaypoint\<close> at the origin: one increment, \<open>0\<close>.\<close>

definition one_waypoint_ruler :: ruler where
  "one_waypoint_ruler =
     fresh_ruler\<lparr>waypoints := [origin_point], labels := [plain_label], active := True,
                  elevation_increments := [0]\<rparr>"

definition feet_scene :: scene where
  "feet_scene = \<lparr>gridUnits = ''ft'', gridDistance = Fin 5, grid = Fin 100\<rparr>"

text \<open>
  A scope in which \<open>destination\<close>, \<open>gridSpaces\<close> and \<open>elevation_increments\<close> are bound, a
  host that measures every segment as \<open>20\<close>, and a ruler with two waypoints and a
  pending increment of \<open>1\<close>.
\<close>

definition bound_scope :: scope where
  "bound_scope =
     \<lparr>sc_destination = Some (Point (Fin 103) (Fin 0)), sc_gridSpaces = Some True,
      sc_elevation_increments = Some [0, 0, 0], sc_segmentDistance = None,
      sc_totalDistance = None\<rparr>"

text \<open>The same scope with the cursor at \<open>(1, 0)\<close>, one unit from the origin.\<close>

definition near_scope :: scope where
  "near_scope =
     \<lparr>sc_destination = Some (Point (Fin 1) (Fin 0)), sc_gridSpaces = Some True,
      sc_elevation_increments = Some [0, 0], sc_segmentDistance = None,
      sc_totalDistance = None\<rparr>"

definition plain_host :: host where
  "plain_host =
     \<lparr>getCenter = Point,
      measureDistances = (\<lambda>segs gridSpaces. Inr (map (\<lambda>s. Fin 20) segs)),
      getSegmentLabel = (\<lambda>d total is_last. ''20 ft''),
      number_to_string = (\<lambda>v. ''0'')\<rparr>"

definition two_waypoint_ruler :: ruler where
  "two_waypoint_ruler =
     fresh_ruler\<lparr>waypoints := [origin_point, Point (Fin 3) (Fin 0)],
                  labels := [plain_label, plain_label], active := True,
                  elevation_increments := [0, 0], destination_elevation_increment := 1\<rparr>"

section \<open>Numbers\<close>

lemma sqrt_9: "sqrt 9 = 3"
  by (rule real_sqrt_unique) simp_all

lemma sqrt_25: "sqrt 25 = 5"
  by (rule real_sqrt_unique) simp_all

lemma sqrt_50: "sqrt 50 = 5 * sqrt 2"
proof -
  have "sqrt 50 = sqrt (25 * 2)" by simp
  also have "\<dots> = sqrt 25 * sqrt 2" by (rule real_sqrt_mult)
  finally show ?thesis by (simp add: sqrt_25)
qed

lemma sqrt_98: "sqrt 98 = 7 * sqrt 2"
proof -
  have "sqrt 49 = 7" by (rule real_sqrt_unique) simp_all
  moreover have "sqrt 98 = sqrt (49 * 2)" by simp
  moreover have "sqrt (49 * 2) = sqrt 49 * sqrt 2" by (rule real_sqrt_mult)
  ultimately show ?thesis by simp
qed

lemma sqrt_10000: "sqrt 10000 = 100"
  by (rule real_sqrt_unique) simp_all

lemma sqrt_15625: "sqrt 15625 = 125"
  by (rule real_sqrt_unique) simp_all

section \<open>Adjusting the pending elevation\<close>

text \<open>
  C9. \<open>incrementElevation\<close> and \<open>decrementElevation\<close> change nothing when the ruler is
  missing or not active. On an active ruler they add \<open>1\<close> and \<open>-1\<close> to
  \<open>destination_elevation_increment\<close> and leave every other field, \<open>elevation_increments\<close>
  among them, as it was.
\<close>

theorem elevation_change_guarded:
  "incrementElevation None = None \<and> decrementElevation None = None
   \<and> (\<not> active r \<longrightarrow>
         incrementElevation (Some r) = Some r \<and> decrementElevation (Some r) = Some r)
   \<and> (active r \<longrightarrow>
         incrementElevation (Some r) =
           Some (r\<lparr>destination_elevation_increment := destination_elevation_increment r + 1\<rparr>)
       \<and> decrementElevation (Some r) =
           Some (r\<lparr>destination_elevation_increment := destination_elevation_increment r - 1\<rparr>)
       \<and> elevation_increments (the (incrementElevation (Some r))) = elevation_increments r
       \<and> elevation_increments (the (decrementElevation (Some r))) = elevation_increments r)"
  by (simp add: incrementElevation_def decrementElevation_def changeElevation_def)

theorem elevation_change_guarded_witness:
  "active one_waypoint_ruler
   \<and> incrementElevation (Some one_waypoint_ruler) =
       Some (one_waypoint_ruler\<lparr>destination_elevation_increment := 1\<rparr>)
   \<and> decrementElevation (Some one_waypoint_ruler) =
       Some (one_waypoint_ruler\<lparr>destination_elevation_increment := - 1\<rparr>)
   \<and> \<not> active fresh_ruler
   \<and> incrementElevation (Some fresh_ruler) = Some fresh_ruler
   \<and> decrementElevation (Some fresh_ruler) = Some fresh_ruler"
  using elevation_change_guarded [of one_waypoint_ruler] elevation_change_guarded [of fresh_ruler]
  by (simp add: one_waypoint_ruler_def fresh_ruler_def)

section \<open>Adding and removing waypoints\<close>

text \<open>
  C10. Removing a waypoint when \<open>elevation_increments\<close> is empty: \<open>pop\<close> returns
  \<open>undefined\<close> and the array stays empty, the pending increment is reset to \<open>0\<close>, and the
  wrapper adds no error of its own: its result is the wrapped method's on that ruler.
\<close>

theorem remove_waypoint_empty:
  "elevation_increments r = [] \<Longrightarrow>
     array_pop (elevation_increments r) = (None, [])
   \<and> elevationRulerRemoveWaypoint wrapped r =
       wrapped (r\<lparr>elevation_increments := [], destination_elevation_increment := 0\<rparr>)"
  by (simp add: elevationRulerRemoveWaypoint_def array_pop_def)

theorem remove_waypoint_empty_witness:
  "elevation_increments (fresh_ruler\<lparr>destination_elevation_increment := 3\<rparr>) = []
   \<and> elevationRulerRemoveWaypoint (\<lambda>this. (Inr () :: js_error + unit, this))
         (fresh_ruler\<lparr>destination_elevation_increment := 3\<rparr>) = (Inr (), fresh_ruler)"
  using remove_waypoint_empty [of "fresh_ruler\<lparr>destination_elevation_increment := 3\<rparr>"
      "\<lambda>this. (Inr () :: js_error + unit, this)"]
  by (simp add: fresh_ruler_def)

text \<open>
  The invariant of a session in which the pending increment is never adjusted: as many
  increments as waypoints, every increment \<open>0\<close>, pending increment \<open>0\<close>.
\<close>

lemma transition_step_invariant:
  assumes "length (elevation_increments r) = length (waypoints r)"
    and "set (elevation_increments r) \<subseteq> {0}"
    and "destination_elevation_increment r = 0"
  shows "length (elevation_increments (transition_step r t)) =
           length (waypoints (transition_step r t))
   \<and> set (elevation_increments (transition_step r t)) \<subseteq> {0}
   \<and> destination_elevation_increment (transition_step r t) = 0"
  using assms
  by (cases t)
     (auto simp: elevationRulerAddWaypoint_def host_addWaypoint_def
        elevationRulerRemoveWaypoint_def host_removeWaypoint_def array_pop_def
        dest: in_set_butlastD)

lemma run_transitions_invariant:
  assumes "length (elevation_increments r) = length (waypoints r)"
    and "set (elevation_increments r) \<subseteq> {0}"
    and "destination_elevation_increment r = 0"
  shows "length (elevation_increments (run_transitions r ts)) =
           length (waypoints (run_transitions r ts))
   \<and> set (elevation_increments (run_transitions r ts)) \<subseteq> {0}
   \<and> destination_elevation_increment (run_transitions r ts) = 0"
  using assms
proof (induction ts arbitrary: r)
  case Nil
  then show ?case by (simp add: run_transitions_def)
next
  case (Cons t ts)
  have "run_transitions r (t # ts) = run_transitions (transition_step r t) ts"
    by (simp add: run_transitions_def)
  moreover note transition_step_invariant [OF Cons.prems, of t]
  ultimately show ?case using Cons.IH [of "transition_step r t"] by simp
qed

lemma cleared_invariant:
  "length (elevation_increments (elevationRulerClear host_clear r0)) =
     length (waypoints (elevationRulerClear host_clear r0))
   \<and> set (elevation_increments (elevationRulerClear host_clear r0)) \<subseteq> {0}
   \<and> destination_elevation_increment (elevationRulerClear host_clear r0) = 0"
  by (simp add: elevationRulerClear_def host_clear_def)

text \<open>
  C4. \<open>clear\<close> leaves an empty increment sequence and a pending increment of \<open>0\<close>. After
  any sequence of add-waypoint and remove-waypoint transitions from there,
  \<open>elevation_increments\<close> is as long as the list of committed waypoints and its first
  element, when there is one, is \<open>0\<close>. In any state, add-waypoint appends the pending
  increment and resets it to \<open>0\<close>, and remove-waypoint drops the last element and resets
  the pending increment to \<open>0\<close>.
\<close>

theorem increments_waypoints_parity:
  "elevation_increments (elevationRulerClear host_clear r0) = []
   \<and> destination_elevation_increment (elevationRulerClear host_clear r0) = 0
   \<and> length (elevation_increments (run_transitions (elevationRulerClear host_clear r0) ts)) =
       length (waypoints (run_transitions (elevationRulerClear host_clear r0) ts))
   \<and> (elevation_increments (run_transitions (elevationRulerClear host_clear r0) ts) \<noteq> [] \<longrightarrow>
        hd (elevation_increments (run_transitions (elevationRulerClear host_clear r0) ts)) = 0)
   \<and> elevation_increments (transition_step r (AddWaypoint p)) =
       elevation_increments r @ [destination_elevation_increment r]
   \<and> destination_elevation_increment (transition_step r (AddWaypoint p)) = 0
   \<and> elevation_increments (transition_step r RemoveWaypoint) = butlast (elevation_increments r)
   \<and> destination_elevation_increment (transition_step r RemoveWaypoint) = 0"
proof -
  let ?c = "elevationRulerClear host_clear r0"
  let ?r = "run_transitions ?c ts"
  have c: "elevation_increments ?c = [] \<and> destination_elevation_increment ?c = 0"
    by (simp add: elevationRulerClear_def host_clear_def)
  have inv: "length (elevation_increments ?r) = length (waypoints ?r)
      \<and> set (elevation_increments ?r) \<subseteq> {0}"
    using cleared_invariant [of r0] run_transitions_invariant [of ?c ts] by blast
  have h: "elevation_increments ?r \<noteq> [] \<longrightarrow> hd (elevation_increments ?r) = 0"
  proof
    assume "elevation_increments ?r \<noteq> []"
    then have "hd (elevation_increments ?r) \<in> set (elevation_increments ?r)" by simp
    with inv show "hd (elevation_increments ?r) = 0" by blast
  qed
  have a: "elevation_increments (transition_step r (AddWaypoint p)) =
       elevation_increments r @ [destination_elevation_increment r]
     \<and> destination_elevation_increment (transition_step r (AddWaypoint p)) = 0"
    by (simp add: elevationRulerAddWaypoint_def host_addWaypoint_def)
  have d: "elevation_increments (transition_step r RemoveWaypoint) =
       butlast (elevation_increments r)
     \<and> destination_elevation_increment (transition_step r RemoveWaypoint) = 0"
    by (simp add: elevationRulerRemoveWaypoint_def host_removeWaypoint_def array_pop_def)
  from c inv h a d show ?thesis by blast
qed

theorem increments_waypoints_parity_witness:
  "elevation_increments
     (run_transitions (elevationRulerClear host_clear one_waypoint_ruler)
        [AddWaypoint origin_point, AddWaypoint (Point (Fin 3) (Fin 0)), RemoveWaypoint]) = [0]
   \<and> waypoints
     (run_transitions (elevationRulerClear host_clear one_waypoint_ruler)
        [AddWaypoint origin_point, AddWaypoint (Point (Fin 3) (Fin 0)), RemoveWaypoint]) =
       [origin_point]
   \<and> hd (elevation_increments
     (run_transitions (elevationRulerClear host_clear one_waypoint_ruler)
        [AddWaypoint origin_point, AddWaypoint (Point (Fin 3) (Fin 0)), RemoveWaypoint])) = 0"
  using increments_waypoints_parity [of one_waypoint_ruler
      "[AddWaypoint origin_point, AddWaypoint (Point (Fin 3) (Fin 0)), RemoveWaypoint]"]
  by (simp add: run_transitions_def elevationRulerClear_def host_clear_def
      elevationRulerAddWaypoint_def host_addWaypoint_def elevationRulerRemoveWaypoint_def
      host_removeWaypoint_def array_pop_def one_waypoint_ruler_def fresh_ruler_def)

section \<open>The test for the original measure function\<close>

text \<open>
  Each step of the \<open>reduce\<close> negates the accumulator before it looks at the element:
  over a sequence of zeros the result is true exactly when the length is even.
\<close>

lemma no_elevation_reduce_snoc:
  "no_elevation_reduce (xs @ [b]) = (\<not> no_elevation_reduce xs \<and> b = 0)"
  by (simp add: no_elevation_reduce_def boolean_to_number_def)

lemma no_elevation_reduce_zeros: "no_elevation_reduce (replicate n 0) = even n"
proof (induction n)
  case 0
  show ?case by (simp add: no_elevation_reduce_def)
next
  case (Suc n)
  have "replicate (Suc n) (0::int) = replicate n 0 @ [0]"
    by (simp add: replicate_append_same)
  then show ?case using Suc by (simp add: no_elevation_reduce_snoc)
qed

lemma use_original_measure_zeros:
  "use_original_measure
     (this\<lparr>elevation_increments := replicate n 0, destination_elevation_increment := 0\<rparr>) = even n"
  by (simp add: use_original_measure_def array_truthy_def no_elevation_reduce_zeros)

text \<open>With a waypoint that climbs three cells the test can still be true.\<close>

lemma use_original_measure_with_elevation:
  "use_original_measure
     (this\<lparr>elevation_increments := [0, 3, 0], destination_elevation_increment := 0\<rparr>)"
  by (simp add: use_original_measure_def array_truthy_def no_elevation_reduce_def
      boolean_to_number_def)

lemma elevationRulerMeasure_original:
  "use_original_measure this \<Longrightarrow> elevationRulerMeasure sc h scn wrapped this = wrapped this"
  by (simp add: elevationRulerMeasure_def)

text \<open>
  C2, at the failing input. The ruler holds one waypoint, its increment is \<open>0\<close> and the
  pending increment is \<open>0\<close>: no elevation anywhere. The test is false all the same, the
  wrapped measure function is not called, and the elevation path stops at its first
  statement with a \<open>ReferenceError\<close> on \<open>destination\<close>, leaving the ruler as it was.
\<close>

theorem measure_single_zero_increment:
  "elevation_increments one_waypoint_ruler = [0]
   \<and> destination_elevation_increment one_waypoint_ruler = 0
   \<and> use_original_measure one_waypoint_ruler = False
   \<and> elevationRulerMeasure module_scope h scn wrapped one_waypoint_ruler =
       (Inl (ReferenceError ''destination''), one_waypoint_ruler)"
  by (simp add: use_original_measure_def no_elevation_reduce_def boolean_to_number_def
      array_truthy_def elevationRulerMeasure_def module_scope_def one_waypoint_ruler_def
      fresh_ruler_def)

text \<open>With a wrapped measure function that returns no segments, the two results differ.\<close>

theorem measure_single_zero_increment_witness:
  "elevationRulerMeasure module_scope plain_host feet_scene (\<lambda>this. (Inr [], this))
     one_waypoint_ruler = (Inl (ReferenceError ''destination''), one_waypoint_ruler)
   \<and> elevationRulerMeasure module_scope plain_host feet_scene (\<lambda>this. (Inr [], this))
     one_waypoint_ruler \<noteq> (Inr [], one_waypoint_ruler)"
  using measure_single_zero_increment [of plain_host feet_scene "\<lambda>this. (Inr [], this)"]
  by simp

section \<open>Calling the elevation label\<close>

text \<open>
  C8, at every input. The first template literal reads \<open>segmentDistance\<close>, which nothing
  binds: the function throws a \<open>ReferenceError\<close> and returns no string, whatever the
  increments and \<open>isTotal\<close> are.
\<close>

theorem elevation_label_reference_error:
  "getSegmentElevationLabel module_scope h scn segmentElevationIncrement
     totalElevationIncrement isTotal = Inl (ReferenceError ''segmentDistance'')"
  by (simp add: getSegmentElevationLabel_def module_scope_def Let_def)

section \<open>The elevation projector\<close>

lemma hypot_nonzero:
  fixes u v :: real
  assumes "u \<noteq> 0 \<or> v \<noteq> 0"
  shows "sqrt (v * v + u * u) \<noteq> 0"
proof -
  have "v * v + u * u \<noteq> 0" using assms by (auto simp add: sum_squares_eq_zero_iff)
  then show ?thesis by simp
qed

text \<open>The projected point of two distinct finite points and a finite height.\<close>

lemma ProjectElevatedPoint_finite:
  assumes "a \<noteq> c \<or> b \<noteq> d"
  shows "ProjectElevatedPoint (Point (Fin a) (Fin b)) (Point (Fin c) (Fin d)) (Fin h) =
     Point (Fin (h * (d - b) / sqrt ((d - b) * (d - b) + (c - a) * (c - a)) + c))
           (Fin (h * (c - a) / sqrt ((d - b) * (d - b) + (c - a) * (c - a)) + d))"
proof -
  have "c - a \<noteq> 0 \<or> d - b \<noteq> 0" using assms by auto
  then have "sqrt ((d - b) * (d - b) + (c - a) * (c - a)) \<noteq> 0" by (rule hypot_nonzero)
  then show ?thesis by (simp add: ProjectElevatedPoint_def js_sub_def)
qed

text \<open>
  The offset \<open>B\<rightarrow>C\<close> is \<open>height / distance\<close> times \<open>(dy, dx)\<close>, which is the mirror image
  of \<open>(dx, dy)\<close> across the diagonal, not a perpendicular of it. So the squared length
  of \<open>A\<rightarrow>C\<close> is the squared slant distance plus \<open>4 height dx dy / distance\<close>, and the cross
  product of \<open>A\<rightarrow>B\<close> and \<open>A\<rightarrow>C\<close> is \<open>height (dx\<^sup>2 - dy\<^sup>2) / distance\<close>.
\<close>

lemma projected_distance_squared:
  fixes a b c d h :: real
  assumes "a \<noteq> c \<or> b \<noteq> d"
  defines "D \<equiv> sqrt ((d - b) * (d - b) + (c - a) * (c - a))"
  shows "(h * (d - b) / D + c - a) * (h * (d - b) / D + c - a)
       + (h * (c - a) / D + d - b) * (h * (c - a) / D + d - b)
       = D * D + h * h + 4 * h * (c - a) * (d - b) / D"
proof -
  have "c - a \<noteq> 0 \<or> d - b \<noteq> 0" using assms by auto
  then have D0: "D \<noteq> 0" unfolding D_def by (rule hypot_nonzero)
  have DD: "D * D = (d - b) * (d - b) + (c - a) * (c - a)"
    unfolding D_def by (simp add: real_sqrt_mult_self)
  define u where "u = c - a"
  define v where "v = d - b"
  have DD': "D * D = v * v + u * u" using DD by (simp add: u_def v_def)
  have "(h * v / D + u) * (h * v / D + u) + (h * u / D + v) * (h * u / D + v)
      = h * h * (v * v + u * u) / (D * D) + (u * u + v * v) + 4 * h * u * v / D"
    using D0 by (simp add: field_simps)
  also have "\<dots> = h * h * (D * D) / (D * D) + D * D + 4 * h * u * v / D"
    unfolding DD' by (simp add: add.commute)
  also have "\<dots> = h * h + D * D + 4 * h * u * v / D"
    using D0 by simp
  finally show ?thesis by (simp add: u_def v_def algebra_simps)
qed

lemma projected_distance_finite:
  assumes "a \<noteq> c \<or> b \<noteq> d"
  shows "ray_distance (Ray (Point (Fin a) (Fin b))
       (ProjectElevatedPoint (Point (Fin a) (Fin b)) (Point (Fin c) (Fin d)) (Fin h))) =
     Fin (sqrt ((d - b) * (d - b) + (c - a) * (c - a) + h * h
                + 4 * h * (c - a) * (d - b) / sqrt ((d - b) * (d - b) + (c - a) * (c - a))))"
proof -
  define D where "D = sqrt ((d - b) * (d - b) + (c - a) * (c - a))"
  have DD: "D * D = (d - b) * (d - b) + (c - a) * (c - a)"
    unfolding D_def by (simp add: real_sqrt_mult_self)
  have "ray_distance (Ray (Point (Fin a) (Fin b))
       (ProjectElevatedPoint (Point (Fin a) (Fin b)) (Point (Fin c) (Fin d)) (Fin h))) =
     Fin (sqrt ((h * (d - b) / D + c - a) * (h * (d - b) / D + c - a)
              + (h * (c - a) / D + d - b) * (h * (c - a) / D + d - b)))"
    unfolding ProjectElevatedPoint_finite [OF assms] D_def
    by (simp add: ray_distance_def js_sub_def)
  also have "(h * (d - b) / D + c - a) * (h * (d - b) / D + c - a)
              + (h * (c - a) / D + d - b) * (h * (c - a) / D + d - b)
           = D * D + h * h + 4 * h * (c - a) * (d - b) / D"
    unfolding D_def by (rule projected_distance_squared [OF assms])
  finally show ?thesis unfolding DD unfolding D_def .
qed

text \<open>On a segment parallel to an axis the projected length is the slant distance.\<close>

lemma projected_distance_axis_aligned:
  assumes "a \<noteq> c \<or> b \<noteq> d" and "a = c \<or> b = d"
  shows "ray_distance (Ray (Point (Fin a) (Fin b))
       (ProjectElevatedPoint (Point (Fin a) (Fin b)) (Point (Fin c) (Fin d)) (Fin h))) =
     Math_hypot (ray_distance (Ray (Point (Fin a) (Fin b)) (Point (Fin c) (Fin d)))) (Fin h)"
proof -
  have z: "4 * h * (c - a) * (d - b) = 0" using assms(2) by auto
  have s: "sqrt ((c - a) * (c - a) + (d - b) * (d - b)) * sqrt ((c - a) * (c - a) + (d - b) * (d - b))
      = (c - a) * (c - a) + (d - b) * (d - b)"
    by (simp add: real_sqrt_mult_self)
  show ?thesis
    unfolding projected_distance_finite [OF assms(1)] z
    by (simp add: ray_distance_def js_sub_def s add.commute)
qed

lemma projected_cross_product_finite:
  assumes "a \<noteq> c \<or> b \<noteq> d"
  shows "cross_product (Point (Fin a) (Fin b)) (Point (Fin c) (Fin d))
       (ProjectElevatedPoint (Point (Fin a) (Fin b)) (Point (Fin c) (Fin d)) (Fin h)) =
     Fin (h * ((c - a) * (c - a) - (d - b) * (d - b))
          / sqrt ((d - b) * (d - b) + (c - a) * (c - a)))"
proof -
  have "c - a \<noteq> 0 \<or> d - b \<noteq> 0" using assms by auto
  then have D0: "sqrt ((d - b) * (d - b) + (c - a) * (c - a)) \<noteq> 0" by (rule hypot_nonzero)
  define D where "D = sqrt ((d - b) * (d - b) + (c - a) * (c - a))"
  have "(c - a) * (h * (c - a) / D + d - b) - (d - b) * (h * (d - b) / D + c - a)
      = h * ((c - a) * (c - a) - (d - b) * (d - b)) / D"
    using D0 unfolding D_def [symmetric] by (simp add: field_simps)
  then show ?thesis
    unfolding ProjectElevatedPoint_finite [OF assms] D_def
    by (simp add: cross_product_def js_sub_def)
qed

text \<open>
  C1, at the failing input \<open>A = (0, 0)\<close>, \<open>B = (3, 4)\<close>, \<open>height = 5\<close>. The projected point
  is \<open>(7, 7)\<close>, at distance \<open>7 \<surd>2\<close> from \<open>A\<close>; the slant distance \<open>hypot(|AB|, height)\<close> is
  \<open>5 \<surd>2\<close>. The two differ by more than \<open>2\<close>, far beyond any rounding of doubles.
\<close>

theorem projected_distance_off_axis:
  "ProjectElevatedPoint origin_point (Point (Fin 3) (Fin 4)) (Fin 5) = Point (Fin 7) (Fin 7)
   \<and> ray_distance (Ray origin_point
        (ProjectElevatedPoint origin_point (Point (Fin 3) (Fin 4)) (Fin 5))) = Fin (7 * sqrt 2)
   \<and> Math_hypot (ray_distance (Ray origin_point (Point (Fin 3) (Fin 4)))) (Fin 5)
        = Fin (5 * sqrt 2)
   \<and> 5 * sqrt 2 + 2 < 7 * sqrt 2"
proof -
  have p: "ProjectElevatedPoint origin_point (Point (Fin 3) (Fin 4)) (Fin 5)
      = Point (Fin 7) (Fin 7)"
    by (simp add: ProjectElevatedPoint_def js_sub_def origin_point_def sqrt_25)
  have d: "ray_distance (Ray origin_point (Point (Fin 7) (Fin 7))) = Fin (7 * sqrt 2)"
    by (simp add: ray_distance_def js_sub_def origin_point_def sqrt_98)
  have e: "Math_hypot (ray_distance (Ray origin_point (Point (Fin 3) (Fin 4)))) (Fin 5)
      = Fin (5 * sqrt 2)"
    by (simp add: ray_distance_def js_sub_def origin_point_def sqrt_25 sqrt_50)
  have "1 < sqrt 2" by simp
  then have "5 * sqrt 2 + 2 < 7 * sqrt 2" by simp
  with p d e show ?thesis by simp
qed

text \<open>The scenario of the same claim, on an axis, comes out as stated: distance \<open>125\<close>.\<close>

lemma projected_distance_scenario_125:
  "ProjectElevatedPoint origin_point (Point (Fin 100) (Fin 0)) (Fin 75) =
     Point (Fin 100) (Fin 75)
   \<and> ray_distance (Ray origin_point
        (ProjectElevatedPoint origin_point (Point (Fin 100) (Fin 0)) (Fin 75))) = Fin 125"
  by (simp add: ProjectElevatedPoint_def js_sub_def ray_distance_def origin_point_def
      sqrt_10000 sqrt_15625)

text \<open>With height \<open>0\<close> and distinct finite points the projected point is \<open>B\<close>.\<close>

lemma ProjectElevatedPoint_zero_height_distinct:
  assumes "a \<noteq> c \<or> b \<noteq> d"
  shows "ProjectElevatedPoint (Point (Fin a) (Fin b)) (Point (Fin c) (Fin d)) (Fin 0) =
     Point (Fin c) (Fin d)"
  using ProjectElevatedPoint_finite [OF assms, of 0] by simp

lemma projected_distance_scenario_100:
  "ProjectElevatedPoint origin_point (Point (Fin 100) (Fin 0)) (Fin 0) = Point (Fin 100) (Fin 0)
   \<and> ray_distance (Ray origin_point
        (ProjectElevatedPoint origin_point (Point (Fin 100) (Fin 0)) (Fin 0))) = Fin 100"
  by (simp add: ProjectElevatedPoint_def js_sub_def ray_distance_def origin_point_def sqrt_10000)

text \<open>
  C3, at the failing inputs: \<open>A = B\<close> with height \<open>0\<close>. The distance is \<open>0\<close>, the quotient
  \<open>0 / 0\<close> is \<open>NaN\<close>, and the projected point is \<open>(NaN, NaN)\<close>, not \<open>B\<close>.
\<close>

theorem zero_height_coincident_points:
  "ProjectElevatedPoint (Point (Fin a) (Fin b)) (Point (Fin a) (Fin b)) (Fin 0) = Point NaN NaN"
  by (simp add: ProjectElevatedPoint_def js_sub_def)

text \<open>
  C6, at every coincident pair of finite points and every height, \<open>A = B = (0, 0)\<close> and
  \<open>height = 50\<close> among them: both coordinates of the projected point are \<open>NaN\<close>.
\<close>

theorem coincident_points_NaN:
  "ProjectElevatedPoint (Point (Fin a) (Fin b)) (Point (Fin a) (Fin b)) height = Point NaN NaN"
  by (cases height) (simp_all add: ProjectElevatedPoint_def js_sub_def)

text \<open>
  C7, at two failing inputs. On the diagonal \<open>A = (0, 0)\<close>, \<open>B = (1, 1)\<close> with height \<open>1\<close>
  the projected point is on the line through \<open>A\<close> and \<open>B\<close> although the height is not
  \<open>0\<close>. For \<open>A = (0, 0)\<close>, \<open>B = (3, 4)\<close> the heights \<open>5\<close> and \<open>-5\<close> give \<open>(7, 7)\<close> and
  \<open>(-1, 1)\<close>, while the mirror image of \<open>(7, 7)\<close> across the line through \<open>A\<close> and \<open>B\<close>
  is \<open>(119/25, 217/25)\<close>.
\<close>

theorem projected_direction_fails:
  "ProjectElevatedPoint origin_point (Point (Fin 1) (Fin 1)) (Fin 1)
     = Point (Fin (1 / sqrt 2 + 1)) (Fin (1 / sqrt 2 + 1))
   \<and> cross_product origin_point (Point (Fin 1) (Fin 1))
       (ProjectElevatedPoint origin_point (Point (Fin 1) (Fin 1)) (Fin 1)) = Fin 0
   \<and> ProjectElevatedPoint origin_point (Point (Fin 3) (Fin 4)) (Fin 5) = Point (Fin 7) (Fin 7)
   \<and> ProjectElevatedPoint origin_point (Point (Fin 3) (Fin 4)) (Fin (- 5))
       = Point (Fin (- 1)) (Fin 1)
   \<and> mirror_image origin_point (Point (Fin 3) (Fin 4)) (Point (Fin 7) (Fin 7))
       = Point (Fin (119 / 25)) (Fin (217 / 25))"
  by (simp add: ProjectElevatedPoint_def js_sub_def cross_product_def mirror_image_def
      origin_point_def sqrt_25)

section \<open>The threshold of the segment filter\<close>

text \<open>
  C5, at the failing input. In the scope of the module, \<open>elevationRulerMeasure\<close> either
  returns the wrapped result or throws a \<open>ReferenceError\<close> on \<open>destination\<close>, with the
  ruler as it was: the loop that tests \<open>ray_elevated.distance < 10\<close> is never reached.
  The ruler here has the waypoints \<open>(0, 0)\<close> and \<open>(3, 0)\<close> and a pending increment of
  \<open>1\<close>, so the elevation path is selected. Its first segment has increment \<open>0\<close> and is
  \<open>3\<close> long, projected or not, which is below the threshold. The function throws, the
  label of that segment stays visible, no segment is returned and none is processed.
\<close>

theorem measure_threshold_not_reached:
  "elevationRulerMeasure module_scope h scn wrapped this =
     (if use_original_measure this then wrapped this
      else (Inl (ReferenceError ''destination''), this))
   \<and> use_original_measure two_waypoint_ruler = False
   \<and> segment_elevation feet_scene (elevation_increments two_waypoint_ruler) 0 = Fin 0
   \<and> ray_distance (Ray origin_point (Point (Fin 3) (Fin 0))) = Fin 3
   \<and> ray_distance (Ray origin_point
        (ProjectElevatedPoint origin_point (Point (Fin 3) (Fin 0)) (Fin 0))) = Fin 3
   \<and> js_lt (Fin 3) (Fin 10)
   \<and> elevationRulerMeasure module_scope h feet_scene wrapped two_waypoint_ruler =
       (Inl (ReferenceError ''destination''), two_waypoint_ruler)
   \<and> map lbl_visible (labels two_waypoint_ruler) = [True, True]"
proof -
  have general: "elevationRulerMeasure module_scope h scn wrapped this =
     (if use_original_measure this then wrapped this
      else (Inl (ReferenceError ''destination''), this))" for scn this
    by (simp add: elevationRulerMeasure_def module_scope_def)
  have test: "use_original_measure two_waypoint_ruler = False"
    by (simp add: use_original_measure_def two_waypoint_ruler_def fresh_ruler_def)
  have elevation: "segment_elevation feet_scene (elevation_increments two_waypoint_ruler) 0 = Fin 0"
    by (simp add: segment_elevation_def array_get_def feet_scene_def two_waypoint_ruler_def
        fresh_ruler_def)
  have planar: "ray_distance (Ray origin_point (Point (Fin 3) (Fin 0))) = Fin 3"
    by (simp add: ray_distance_def js_sub_def origin_point_def sqrt_9)
  have projected: "ray_distance (Ray origin_point
        (ProjectElevatedPoint origin_point (Point (Fin 3) (Fin 0)) (Fin 0))) = Fin 3"
    by (simp add: ProjectElevatedPoint_def ray_distance_def js_sub_def origin_point_def sqrt_9)
  have visible: "map lbl_visible (labels two_waypoint_ruler) = [True, True]"
    by (simp add: two_waypoint_ruler_def fresh_ruler_def plain_label_def)
  from general [of scn this] general [of feet_scene two_waypoint_ruler]
    test elevation planar projected visible
  show ?thesis by simp
qed

theorem measure_threshold_not_reached_witness:
  "elevationRulerMeasure module_scope plain_host feet_scene (\<lambda>this. (Inr [], this))
     two_waypoint_ruler = (Inl (ReferenceError ''destination''), two_waypoint_ruler)
   \<and> map lbl_visible
       (labels (snd (elevationRulerMeasure module_scope plain_host feet_scene
                       (\<lambda>this. (Inr [], this)) two_waypoint_ruler))) = [True, True]"
  using measure_threshold_not_reached
    [of plain_host feet_scene "\<lambda>this. (Inr [], this)" two_waypoint_ruler]
  by simp

text \<open>
  What the rest of the elevation path would do if \<open>destination\<close>, \<open>gridSpaces\<close> and
  \<open>elevation_increments\<close> were bound. On the same ruler, with the cursor at \<open>(103, 0)\<close>:
  the first segment, \<open>3\<close> long, is dropped and its label hidden; the second is returned
  and its label shown.
\<close>

lemma elevation_path_example:
  "(case elevationRulerMeasure bound_scope plain_host feet_scene wrapped two_waypoint_ruler of
      (Inr segs, this') \<Rightarrow>
        map seg_ray segs = [Ray (Point (Fin 3) (Fin 0)) (Point (Fin 103) (Fin 0))]
        \<and> map lbl_visible (labels this') = [False, True]
    | (Inl e, this') \<Rightarrow> False)"
  by (simp add: elevationRulerMeasure_def use_original_measure_def no_elevation_reduce_def
      boolean_to_number_def array_truthy_def bound_scope_def plain_host_def feet_scene_def
      two_waypoint_ruler_def fresh_ruler_def origin_point_def plain_label_def
      segment_elevation_def array_get_def ProjectElevatedPoint_def js_sub_def ray_distance_def
      hide_label_def ray_project_def sqrt_9 sqrt_10000 Let_def)

text \<open>
  The last segment of a path is never dropped, however short: the loop reads
  \<open>this.elevation_increments[i + 1]\<close> one past the end, the elevation and with it the
  length of the elevated ray are \<open>NaN\<close>, and \<open>NaN < 10\<close> is false. With one waypoint at
  the origin, no elevation and the cursor at \<open>(1, 0)\<close>, the segment of length \<open>1\<close> is
  returned and its label shown.
\<close>

lemma last_segment_elevation_NaN:
  "length incs \<le> i + 1 \<Longrightarrow> segment_elevation scn incs i = NaN"
  by (simp add: segment_elevation_def array_get_def)

lemma last_segment_kept:
  "(case elevationRulerMeasure near_scope plain_host feet_scene wrapped one_waypoint_ruler of
      (Inr segs, this') \<Rightarrow>
        map seg_ray segs = [Ray origin_point (Point (Fin 1) (Fin 0))]
        \<and> map lbl_visible (labels this') = [True]
    | (Inl e, this') \<Rightarrow> False)"
  by (simp add: elevationRulerMeasure_def use_original_measure_def no_elevation_reduce_def
      boolean_to_number_def array_truthy_def near_scope_def plain_host_def feet_scene_def
      one_waypoint_ruler_def fresh_ruler_def origin_point_def plain_label_def
      segment_elevation_def array_get_def ProjectElevatedPoint_def js_sub_def ray_distance_def
      hide_label_def ray_project_def Let_def)

end
